theory Spec2Isabelle
  imports Main
begin

section \<open>JavaScript values and objects\<close>

text \<open>
  The stores and forms of the application pass plain JavaScript values around. A value
  is one of the primitives the code uses, or a Dayjs date object (the date pickers of
  the forms produce these; \<open>None\<close> is an invalid date, \<open>Some t\<close> a valid one at
  \<open>t\<close> milliseconds). Numbers are modelled as integers: every number the modelled code
  touches is an identifier, a count or a millisecond timestamp.

  An object is a finite map from its own property names to values; reading a property
  that is missing gives \<open>undefined\<close>, and the spread \<open>{...a, ...b}\<close> is the map
  \<open>a ++ b\<close>.
\<close>

datatype jsval =
    JUndefined
  | JNull
  | JBool bool
  | JNum int
  | JStr string
  | JDayjs "int option"

type_synonym jsobject = "string \<rightharpoonup> jsval"

definition getProp :: "jsobject \<Rightarrow> string \<Rightarrow> jsval" where
  "getProp obj k = (case obj k of None \<Rightarrow> JUndefined | Some v \<Rightarrow> v)"

text \<open>Truthiness, as \<open>if (v)\<close>, \<open>a && b\<close> and \<open>a || b\<close> test it.\<close>

fun truthy :: "jsval \<Rightarrow> bool" where
  "truthy JUndefined = False"
| "truthy JNull = False"
| "truthy (JBool b) = b"
| "truthy (JNum n) = (n \<noteq> 0)"
| "truthy (JStr s) = (s \<noteq> [])"
| "truthy (JDayjs d) = True"

section \<open>The link store (cln/app/stores/links.ts)\<close>

subsection \<open>Types\<close>

datatype SecurityLevel = safe | moderate | risky | dangerous

record User =
  user_id :: int
  username :: string
  displayName :: string
  email :: "string option"
  isAdmin :: bool

text \<open>
  \<open>LinkEntry.id\<close> is the field \<open>link_id\<close> here (\<open>id\<close> is the identity function
  of HOL). Optional fields are options.
\<close>

record LinkEntry =
  link_id :: int
  shortCode :: string
  originalUrl :: string
  description :: "string option"
  enabled :: bool
  pageTitle :: "string option"
  securityLevel :: SecurityLevel
  startDateTime :: "string option"
  endDateTime :: "string option"
  withLogo :: bool
  qrSubtitle :: "string option"
  accessCount :: int
  createdAt :: string
  updatedAt :: string
  securityLevelUpdatedAt :: "string option"
  createdBy :: User
  createdById :: int

record LinkAccessResponse =
  lar_id :: int
  lar_shortCode :: string
  lar_originalUrl :: string
  lar_description :: "string option"
  lar_pageTitle :: "string option"
  lar_securityLevel :: SecurityLevel
  lar_securityLevelUpdatedAt :: "string option"
  lar_isActive :: bool
  lar_accessCount :: int

record LinkStats =
  ls_id :: int
  ls_shortCode :: string
  ls_accessCount :: int
  ls_createdAt :: string
  ls_updatedAt :: string
  ls_isActive :: bool

record RedirectResponse =
  url :: string
  redirect :: bool

text \<open>
  \<open>PaginationParams\<close> has the optional properties \<open>max\<close>, \<open>offset\<close>, \<open>sort\<close> and
  \<open>order\<close>; the request bodies \<open>CreateLinkDto\<close> and \<open>UpdateLinkDto\<close> only travel
  to the server. All three are objects.
\<close>

type_synonym PaginationParams = jsobject
type_synonym CreateLinkDto = jsobject
type_synonym UpdateLinkDto = jsobject

text \<open>
  What a rejected axios call throws: the store reads \<open>error.response?.data?.message\<close>
  of it, so each of the three levels may be missing. The innermost field is
  \<open>err_message\<close> here (\<open>message\<close> is the toast's text below).
\<close>

record ResponseData =
  err_message :: "string option"

record ErrorResponse =
  data :: "ResponseData option"

record ApiError =
  response :: "ErrorResponse option"

record LinkState =
  links :: "LinkEntry list"
  currentLink :: "LinkEntry option"
  isLoading :: bool
  error :: "string option"
  totalCount :: int
  pagination :: PaginationParams

definition initialPagination :: PaginationParams where
  "initialPagination =
     [''max'' \<mapsto> JNum 50, ''offset'' \<mapsto> JNum 0,
      ''sort'' \<mapsto> JStr ''createdAt'', ''order'' \<mapsto> JStr ''DESC'']"

definition initialState :: LinkState where
  "initialState =
     \<lparr> links = [], currentLink = None, isLoading = False, error = None,
       totalCount = 0, pagination = initialPagination \<rparr>"

subsection \<open>Error messages\<close>

text \<open>
  \<open>error.response?.data?.message\<close>: the optional chain gives \<open>undefined\<close> as soon
  as one level is missing.
\<close>

definition serverMessage :: "ApiError \<Rightarrow> string option" where
  "serverMessage e =
     (case response e of
        None \<Rightarrow> None
      | Some r \<Rightarrow> (case data r of None \<Rightarrow> None | Some d \<Rightarrow> err_message d))"

text \<open>
  \<open>error.response?.data?.message || fallback\<close>: the fallback is taken when the message
  is missing and also when it is the empty string, which is falsy.
\<close>

definition errorMessage :: "ApiError \<Rightarrow> string \<Rightarrow> string" where
  "errorMessage e fallback =
     (case serverMessage e of
        None \<Rightarrow> fallback
      | Some m \<Rightarrow> if m = [] then fallback else m)"

subsection \<open>The steps every operation shares\<close>

text \<open>
  Each asynchronous operation is \<open>set({ isLoading: true, error: null })\<close>, then the
  awaited HTTP call, then one \<open>set\<close> in the \<open>try\<close> block when the call resolved or
  one in the \<open>catch\<close> block when it rejected (the error is thrown again).
  zustand's \<open>set\<close> merges the given fields into the state.
\<close>

definition begin_op :: "LinkState \<Rightarrow> LinkState" where
  "begin_op s = s\<lparr> isLoading := True, error := None \<rparr>"

definition rejected :: "string \<Rightarrow> ApiError \<Rightarrow> LinkState \<Rightarrow> LinkState" where
  "rejected fallback e s = s\<lparr> isLoading := False, error := Some (errorMessage e fallback) \<rparr>"

text \<open>The \<open>set\<close> of the \<open>try\<close> block, one per shape of update.\<close>

definition createLink_ok :: "LinkEntry \<Rightarrow> LinkState \<Rightarrow> LinkState" where
  "createLink_ok newLink s = s\<lparr> links := newLink # links s, isLoading := False \<rparr>"

definition getUserLinks_ok :: "PaginationParams \<Rightarrow> LinkEntry list \<Rightarrow> LinkState \<Rightarrow> LinkState" where
  "getUserLinks_ok queryParams ls s =
     s\<lparr> links := ls, isLoading := False, pagination := queryParams \<rparr>"

definition getLinkById_ok :: "LinkEntry \<Rightarrow> LinkState \<Rightarrow> LinkState" where
  "getLinkById_ok link s = s\<lparr> currentLink := Some link, isLoading := False \<rparr>"

text \<open>
  \<open>state.currentLink?.id === id\<close> is false when \<open>currentLink\<close> is \<open>null\<close>.
\<close>

definition currentLink_has_id :: "LinkState \<Rightarrow> int \<Rightarrow> bool" where
  "currentLink_has_id s i =
     (case currentLink s of None \<Rightarrow> False | Some c \<Rightarrow> link_id c = i)"

definition updateLink_ok :: "int \<Rightarrow> LinkEntry \<Rightarrow> LinkState \<Rightarrow> LinkState" where
  "updateLink_ok i updatedLink s =
     s\<lparr> links := map (\<lambda>link. if link_id link = i then updatedLink else link) (links s),
        currentLink := (if currentLink_has_id s i then Some updatedLink else currentLink s),
        isLoading := False \<rparr>"

definition deleteLink_ok :: "int \<Rightarrow> LinkState \<Rightarrow> LinkState" where
  "deleteLink_ok i s =
     s\<lparr> links := filter (\<lambda>link. link_id link \<noteq> i) (links s),
        currentLink := (if currentLink_has_id s i then None else currentLink s),
        isLoading := False \<rparr>"

definition disableLinkByShortCode_ok :: "string \<Rightarrow> LinkEntry \<Rightarrow> LinkState \<Rightarrow> LinkState" where
  "disableLinkByShortCode_ok code updatedLink s =
     s\<lparr> links := map (\<lambda>link. if shortCode link = code then updatedLink else link) (links s),
        isLoading := False \<rparr>"

definition loaded :: "LinkState \<Rightarrow> LinkState" where
  "loaded s = s\<lparr> isLoading := False \<rparr>"

subsection \<open>The operations\<close>

text \<open>
  An operation takes its arguments, the outcome of its HTTP call (\<open>Inl\<close> the thrown
  error, \<open>Inr\<close> the response's data) and the state; it returns what the promise
  settles to (\<open>Inl\<close> the error thrown again, \<open>Inr\<close> the value returned) and the
  new state.
\<close>

definition createLink ::
  "CreateLinkDto \<Rightarrow> ApiError + LinkEntry \<Rightarrow> LinkState \<Rightarrow> (ApiError + LinkEntry) \<times> LinkState" where
  "createLink dto http s =
     (let s1 = begin_op s in
      case http of
        Inr newLink \<Rightarrow> (Inr newLink, createLink_ok newLink s1)
      | Inl e \<Rightarrow> (Inl e, rejected ''Failed to create link'' e s1))"

text \<open>\<open>params || get().pagination\<close> is read after the first \<open>set\<close>.\<close>

definition getUserLinks ::
  "PaginationParams option \<Rightarrow> ApiError + LinkEntry list \<Rightarrow> LinkState \<Rightarrow> (ApiError + unit) \<times> LinkState" where
  "getUserLinks params http s =
     (let s1 = begin_op s;
          queryParams = (case params of Some p \<Rightarrow> p | None \<Rightarrow> pagination s1) in
      case http of
        Inr ls \<Rightarrow> (Inr (), getUserLinks_ok queryParams ls s1)
      | Inl e \<Rightarrow> (Inl e, rejected ''Failed to fetch links'' e s1))"

definition getLinkById ::
  "int \<Rightarrow> ApiError + LinkEntry \<Rightarrow> LinkState \<Rightarrow> (ApiError + LinkEntry) \<times> LinkState" where
  "getLinkById i http s =
     (let s1 = begin_op s in
      case http of
        Inr link \<Rightarrow> (Inr link, getLinkById_ok link s1)
      | Inl e \<Rightarrow> (Inl e, rejected ''Failed to fetch link'' e s1))"

definition updateLink ::
  "int \<Rightarrow> UpdateLinkDto \<Rightarrow> ApiError + LinkEntry \<Rightarrow> LinkState \<Rightarrow> (ApiError + LinkEntry) \<times> LinkState" where
  "updateLink i dto http s =
     (let s1 = begin_op s in
      case http of
        Inr updatedLink \<Rightarrow> (Inr updatedLink, updateLink_ok i updatedLink s1)
      | Inl e \<Rightarrow> (Inl e, rejected ''Failed to update link'' e s1))"

definition deleteLink ::
  "int \<Rightarrow> ApiError + unit \<Rightarrow> LinkState \<Rightarrow> (ApiError + unit) \<times> LinkState" where
  "deleteLink i http s =
     (let s1 = begin_op s in
      case http of
        Inr u \<Rightarrow> (Inr (), deleteLink_ok i s1)
      | Inl e \<Rightarrow> (Inl e, rejected ''Failed to delete link'' e s1))"

definition transferOwnership ::
  "int \<Rightarrow> int \<Rightarrow> ApiError + LinkEntry \<Rightarrow> LinkState \<Rightarrow> (ApiError + LinkEntry) \<times> LinkState" where
  "transferOwnership i newOwnerId http s =
     (let s1 = begin_op s in
      case http of
        Inr updatedLink \<Rightarrow> (Inr updatedLink, updateLink_ok i updatedLink s1)
      | Inl e \<Rightarrow> (Inl e, rejected ''Failed to transfer ownership'' e s1))"

definition getLinkStats ::
  "int \<Rightarrow> ApiError + LinkStats \<Rightarrow> LinkState \<Rightarrow> (ApiError + LinkStats) \<times> LinkState" where
  "getLinkStats i http s =
     (let s1 = begin_op s in
      case http of
        Inr stats \<Rightarrow> (Inr stats, loaded s1)
      | Inl e \<Rightarrow> (Inl e, rejected ''Failed to fetch stats'' e s1))"

definition accessLink ::
  "string \<Rightarrow> ApiError + LinkAccessResponse \<Rightarrow> LinkState \<Rightarrow> (ApiError + LinkAccessResponse) \<times> LinkState" where
  "accessLink code http s =
     (let s1 = begin_op s in
      case http of
        Inr r \<Rightarrow> (Inr r, loaded s1)
      | Inl e \<Rightarrow> (Inl e, rejected ''Link not found'' e s1))"

definition getRedirectUrl ::
  "string \<Rightarrow> ApiError + RedirectResponse \<Rightarrow> LinkState \<Rightarrow> (ApiError + string) \<times> LinkState" where
  "getRedirectUrl code http s =
     (let s1 = begin_op s in
      case http of
        Inr r \<Rightarrow> (Inr (url r), loaded s1)
      | Inl e \<Rightarrow> (Inl e, rejected ''Link not found'' e s1))"

definition searchAllLinks ::
  "PaginationParams option \<Rightarrow> ApiError + LinkEntry list \<Rightarrow> LinkState \<Rightarrow> (ApiError + LinkEntry list) \<times> LinkState" where
  "searchAllLinks params http s =
     (let s1 = begin_op s in
      case http of
        Inr ls \<Rightarrow> (Inr ls, loaded s1)
      | Inl e \<Rightarrow> (Inl e, rejected ''Failed to search links'' e s1))"

definition disableLinkByShortCode ::
  "string \<Rightarrow> ApiError + LinkEntry \<Rightarrow> LinkState \<Rightarrow> (ApiError + LinkEntry) \<times> LinkState" where
  "disableLinkByShortCode code http s =
     (let s1 = begin_op s in
      case http of
        Inr updatedLink \<Rightarrow> (Inr updatedLink, disableLinkByShortCode_ok code updatedLink s1)
      | Inl e \<Rightarrow> (Inl e, rejected ''Failed to disable link'' e s1))"

definition viewLinkByShortCode ::
  "string \<Rightarrow> ApiError + LinkEntry \<Rightarrow> LinkState \<Rightarrow> (ApiError + LinkEntry) \<times> LinkState" where
  "viewLinkByShortCode code http s =
     (let s1 = begin_op s in
      case http of
        Inr link \<Rightarrow> (Inr link, loaded s1)
      | Inl e \<Rightarrow> (Inl e, rejected ''Failed to view link'' e s1))"

subsection \<open>UI state management\<close>

definition setCurrentLink :: "LinkEntry option \<Rightarrow> LinkState \<Rightarrow> LinkState" where
  "setCurrentLink link s = s\<lparr> currentLink := link \<rparr>"

definition setPagination :: "PaginationParams \<Rightarrow> LinkState \<Rightarrow> LinkState" where
  "setPagination params s = s\<lparr> pagination := pagination s ++ params \<rparr>"

definition clearError :: "LinkState \<Rightarrow> LinkState" where
  "clearError s = s\<lparr> error := None \<rparr>"

definition reset :: "LinkState \<Rightarrow> LinkState" where
  "reset s =
     s\<lparr> links := [], currentLink := None, isLoading := False, error := None,
        totalCount := 0, pagination := initialPagination \<rparr>"

subsection \<open>Persistence\<close>

text \<open>
  The \<open>persist\<close> middleware writes \<open>partialize(state)\<close> to the storage. A snapshot
  is a partial state: each field of the store is in it (\<open>Some\<close>) or absent
  (\<open>None\<close>). \<open>partialize\<close> is \<open>(state) => ({ pagination: state.pagination })\<close>.
\<close>

record Snapshot =
  snap_links :: "LinkEntry list option"
  snap_currentLink :: "LinkEntry option option"
  snap_isLoading :: "bool option"
  snap_error :: "string option option"
  snap_totalCount :: "int option"
  snap_pagination :: "PaginationParams option"

definition partialize :: "LinkState \<Rightarrow> Snapshot" where
  "partialize state =
     \<lparr> snap_links = None, snap_currentLink = None, snap_isLoading = None,
       snap_error = None, snap_totalCount = None,
       snap_pagination = Some (pagination state) \<rparr>"

subsection \<open>Operations in flight\<close>

text \<open>
  An \<open>await\<close> gives control back to the event loop, so the \<open>set\<close> calls of
  different operations interleave: the store sees a sequence of events, each one
  \<open>set\<close> (or one synchronous action). \<open>Started\<close> is the first \<open>set\<close> of an
  operation, \<open>Resolved\<close> the one of its \<open>try\<close> block, \<open>Rejected\<close> the one of
  its \<open>catch\<close> block.
\<close>

datatype opname =
    CreateLink | GetUserLinks | GetLinkById | UpdateLink | DeleteLink
  | TransferOwnership | GetLinkStats | AccessLink | GetRedirectUrl
  | SearchAllLinks | DisableLinkByShortCode | ViewLinkByShortCode

fun fallback :: "opname \<Rightarrow> string" where
  "fallback CreateLink = ''Failed to create link''"
| "fallback GetUserLinks = ''Failed to fetch links''"
| "fallback GetLinkById = ''Failed to fetch link''"
| "fallback UpdateLink = ''Failed to update link''"
| "fallback DeleteLink = ''Failed to delete link''"
| "fallback TransferOwnership = ''Failed to transfer ownership''"
| "fallback GetLinkStats = ''Failed to fetch stats''"
| "fallback AccessLink = ''Link not found''"
| "fallback GetRedirectUrl = ''Link not found''"
| "fallback SearchAllLinks = ''Failed to search links''"
| "fallback DisableLinkByShortCode = ''Failed to disable link''"
| "fallback ViewLinkByShortCode = ''Failed to view link''"

text \<open>
  What a resolved call carries into the state. \<open>getUserLinks\<close> stores the
  \<open>queryParams\<close> it read when it started; the five read-only operations only
  clear \<open>isLoading\<close>.
\<close>

datatype resolution =
    CreateLinkOk LinkEntry
  | GetUserLinksOk PaginationParams "LinkEntry list"
  | GetLinkByIdOk LinkEntry
  | UpdateLinkOk int LinkEntry
  | DeleteLinkOk int
  | TransferOwnershipOk int LinkEntry
  | DisableLinkByShortCodeOk string LinkEntry
  | ReadOk opname

fun resolved :: "resolution \<Rightarrow> LinkState \<Rightarrow> LinkState" where
  "resolved (CreateLinkOk newLink) s = createLink_ok newLink s"
| "resolved (GetUserLinksOk queryParams ls) s = getUserLinks_ok queryParams ls s"
| "resolved (GetLinkByIdOk link) s = getLinkById_ok link s"
| "resolved (UpdateLinkOk i updatedLink) s = updateLink_ok i updatedLink s"
| "resolved (DeleteLinkOk i) s = deleteLink_ok i s"
| "resolved (TransferOwnershipOk i updatedLink) s = updateLink_ok i updatedLink s"
| "resolved (DisableLinkByShortCodeOk code updatedLink) s = disableLinkByShortCode_ok code updatedLink s"
| "resolved (ReadOk opn) s = loaded s"

datatype event =
    Started opname
  | Resolved resolution
  | Rejected opname ApiError
  | SetCurrentLink "LinkEntry option"
  | SetPagination PaginationParams
  | ClearError
  | Reset

fun step :: "LinkState \<Rightarrow> event \<Rightarrow> LinkState" where
  "step s (Started opn) = begin_op s"
| "step s (Resolved r) = resolved r s"
| "step s (Rejected opn e) = rejected (fallback opn) e s"
| "step s (SetCurrentLink link) = setCurrentLink link s"
| "step s (SetPagination params) = setPagination params s"
| "step s ClearError = clearError s"
| "step s Reset = reset s"

definition run :: "event list \<Rightarrow> LinkState \<Rightarrow> LinkState" where
  "run evs s = foldl step s evs"

text \<open>The operation started last, and the rejection that the error field still shows.\<close>

fun noteStarted :: "opname option \<Rightarrow> event \<Rightarrow> opname option" where
  "noteStarted prev (Started opn) = Some opn"
| "noteStarted prev ev = prev"

definition lastStarted :: "event list \<Rightarrow> opname option" where
  "lastStarted evs = foldl noteStarted None evs"

fun noteRejection :: "(opname \<times> ApiError) option \<Rightarrow> event \<Rightarrow> (opname \<times> ApiError) option" where
  "noteRejection shown (Started opn) = None"
| "noteRejection shown (Rejected opn e) = Some (opn, e)"
| "noteRejection shown ClearError = None"
| "noteRejection shown Reset = None"
| "noteRejection shown ev = shown"

definition shownRejection :: "event list \<Rightarrow> (opname \<times> ApiError) option" where
  "shownRejection evs = foldl noteRejection None evs"

definition describes :: "(opname \<times> ApiError) \<Rightarrow> string" where
  "describes r = errorMessage (snd r) (fallback (fst r))"

section \<open>The toast store (cln/app/stores/toast.ts)\<close>

datatype ToastSeverity = Success | Info | Warning | Error

datatype ToastPosition =
    TopLeft | TopCenter | TopRight | BottomLeft | BottomCenter | BottomRight

text \<open>
  A timer handle (\<open>NodeJS.Timeout\<close>) is an object, so \<open>if (state.timeoutId)\<close> asks
  whether the field is \<open>null\<close>.
\<close>

datatype Timeout = Timeout nat

record ToastState =
  "open" :: bool
  message :: string
  severity :: ToastSeverity
  duration :: int
  position :: ToastPosition
  timeoutId :: "Timeout option"

text \<open>
  The store lives next to the timers of the JavaScript runtime: \<open>timers\<close> are the
  pending ones (set and neither cleared nor fired), \<open>nextTimer\<close> numbers the next
  handle. Every timer this store sets runs the same callback,
  \<open>set({ open: false, timeoutId: null })\<close>.
\<close>

record ToastSystem =
  store :: ToastState
  timers :: "Timeout list"
  nextTimer :: nat

definition initialToast :: ToastSystem where
  "initialToast =
     \<lparr> store = \<lparr> open = False, message = [], severity = Info, duration = 5000,
                  position = BottomRight, timeoutId = None \<rparr>,
       timers = [], nextTimer = 1 \<rparr>"

definition setTimeout :: "ToastSystem \<Rightarrow> Timeout \<times> ToastSystem" where
  "setTimeout sys =
     (Timeout (nextTimer sys),
      sys\<lparr> timers := timers sys @ [Timeout (nextTimer sys)], nextTimer := Suc (nextTimer sys) \<rparr>)"

definition clearTimeout :: "Timeout \<Rightarrow> ToastSystem \<Rightarrow> ToastSystem" where
  "clearTimeout t sys = sys\<lparr> timers := removeAll t (timers sys) \<rparr>"

definition clearPending :: "ToastSystem \<Rightarrow> ToastSystem" where
  "clearPending sys =
     (case timeoutId (store sys) of Some t \<Rightarrow> clearTimeout t sys | None \<Rightarrow> sys)"

text \<open>Missing arguments take the defaults \<open>'info'\<close>, \<open>5000\<close> and \<open>'bottom-right'\<close>.\<close>

definition showToast ::
  "string \<Rightarrow> ToastSeverity option \<Rightarrow> int option \<Rightarrow> ToastPosition option \<Rightarrow> ToastSystem \<Rightarrow> ToastSystem" where
  "showToast msg sev dur pos sys =
     (let severity' = (case sev of None \<Rightarrow> Info | Some v \<Rightarrow> v);
          duration' = (case dur of None \<Rightarrow> 5000 | Some d \<Rightarrow> d);
          position' = (case pos of None \<Rightarrow> BottomRight | Some p \<Rightarrow> p);
          sys1 = clearPending sys;
          sys2 = sys1\<lparr> store := (store sys1)\<lparr> timeoutId := None \<rparr> \<rparr>;
          (tid, sys3) = setTimeout sys2
      in sys3\<lparr> store := (store sys3)\<lparr> open := True, message := msg, severity := severity',
                   duration := duration', position := position', timeoutId := Some tid \<rparr> \<rparr>)"

definition hideToast :: "ToastSystem \<Rightarrow> ToastSystem" where
  "hideToast sys =
     (let sys1 = clearPending sys
      in sys1\<lparr> store := (store sys1)\<lparr> open := False, timeoutId := None \<rparr> \<rparr>)"

definition showSuccess :: "string \<Rightarrow> int option \<Rightarrow> ToastSystem \<Rightarrow> ToastSystem" where
  "showSuccess msg dur sys =
     showToast msg (Some Success) (Some (case dur of None \<Rightarrow> 5000 | Some d \<Rightarrow> d)) None sys"

definition showError :: "string \<Rightarrow> int option \<Rightarrow> ToastSystem \<Rightarrow> ToastSystem" where
  "showError msg dur sys =
     showToast msg (Some Error) (Some (case dur of None \<Rightarrow> 5000 | Some d \<Rightarrow> d)) None sys"

definition showWarning :: "string \<Rightarrow> int option \<Rightarrow> ToastSystem \<Rightarrow> ToastSystem" where
  "showWarning msg dur sys =
     showToast msg (Some Warning) (Some (case dur of None \<Rightarrow> 5000 | Some d \<Rightarrow> d)) None sys"

definition showInfo :: "string \<Rightarrow> int option \<Rightarrow> ToastSystem \<Rightarrow> ToastSystem" where
  "showInfo msg dur sys =
     showToast msg (Some Info) (Some (case dur of None \<Rightarrow> 5000 | Some d \<Rightarrow> d)) None sys"

text \<open>A pending timer fires: it is no longer pending, and its callback runs.\<close>

definition timerFires :: "Timeout \<Rightarrow> ToastSystem \<Rightarrow> ToastSystem" where
  "timerFires t sys =
     (if t \<in> set (timers sys)
      then sys\<lparr> timers := removeAll t (timers sys),
                store := (store sys)\<lparr> open := False, timeoutId := None \<rparr> \<rparr>
      else sys)"

datatype toast_event =
    ShowToast string "ToastSeverity option" "int option" "ToastPosition option"
  | HideToast
  | ShowSuccess string "int option"
  | ShowError string "int option"
  | ShowWarning string "int option"
  | ShowInfo string "int option"
  | TimerFires Timeout

fun toast_step :: "ToastSystem \<Rightarrow> toast_event \<Rightarrow> ToastSystem" where
  "toast_step sys (ShowToast msg sev dur pos) = showToast msg sev dur pos sys"
| "toast_step sys HideToast = hideToast sys"
| "toast_step sys (ShowSuccess msg dur) = showSuccess msg dur sys"
| "toast_step sys (ShowError msg dur) = showError msg dur sys"
| "toast_step sys (ShowWarning msg dur) = showWarning msg dur sys"
| "toast_step sys (ShowInfo msg dur) = showInfo msg dur sys"
| "toast_step sys (TimerFires t) = timerFires t sys"

definition toast_run :: "toast_event list \<Rightarrow> ToastSystem" where
  "toast_run evs = foldl toast_step initialToast evs"

text \<open>The pending timers are exactly the one the store remembers, if any.\<close>

definition timers_tracked :: "ToastSystem \<Rightarrow> bool" where
  "timers_tracked sys =
     (timers sys = (case timeoutId (store sys) of None \<Rightarrow> [] | Some t \<Rightarrow> [t]))"

section \<open>The QR renderer (cln/app/components/QRCodeGenerator.tsx)\<close>

datatype QRErrorCorrectionLevel = LevelL | LevelM | LevelQ | LevelH

text \<open>
  One render of the component: its props \<open>link\<close> and \<open>fullUrl\<close> and its state
  \<open>size\<close> (the field \<open>size_px\<close> here) and \<open>errorCorrectionLevel\<close>.
\<close>

record QRView =
  link :: LinkEntry
  fullUrl :: string
  size_px :: int
  errorCorrectionLevel :: QRErrorCorrectionLevel

text \<open>
  What the browser does when the component asks: whether the canvas is mounted, whether
  \<open>QRCode.toCanvas\<close> resolves, whether the canvas gives a 2d context, whether the logo
  image loads, what \<open>canvas.toBlob\<close> does (it throws, or it calls the callback later
  with a blob or with \<open>null\<close>), and whether the two clipboard writes resolve.
\<close>

datatype ToBlob = ToBlobThrows | ToBlobCalls bool

record Browser =
  canvas :: bool
  toCanvas_ok :: bool
  context2d :: bool
  logo_loads :: bool
  toBlob :: ToBlob
  clipboard_write_ok :: bool
  clipboard_writeText_ok :: bool

text \<open>The calls the component makes, in order.\<close>

datatype Call =
    ToCanvas string int QRErrorCorrectionLevel
  | DrawLogo
  | FillText string
  | ConsoleError
  | ClipboardWrite
  | ClipboardWriteText string
  | ToastSuccess string
  | ToastError string
  | UnhandledRejection

definition subtitle :: "QRView \<Rightarrow> Call list" where
  "subtitle v =
     (case qrSubtitle (link v) of
        None \<Rightarrow> []
      | Some s \<Rightarrow> if s = [] then [] else [FillText s])"

definition generateQRCode :: "Browser \<Rightarrow> QRView \<Rightarrow> Call list" where
  "generateQRCode b v =
     (if \<not> canvas b then []
      else if \<not> toCanvas_ok b
      then [ToCanvas (fullUrl v) (size_px v) (errorCorrectionLevel v),
            ConsoleError, ToastError ''qr.generate.error'']
      else ToCanvas (fullUrl v) (size_px v) (errorCorrectionLevel v) #
        (if withLogo (link v)
         then (if context2d b
               then (if logo_loads b then DrawLogo # subtitle v else [ConsoleError])
               else [])
         else (if context2d b then subtitle v else [])))"

text \<open>
  \<open>useEffect(() => { generateQRCode(); }, [size, errorCorrectionLevel, link.withLogo,
  link.qrSubtitle])\<close>. React runs an effect after the first render, and after a later
  render when an entry of the dependency array differs from the one of the render
  before; the effect then calls the \<open>generateQRCode\<close> of that render.
\<close>

type_synonym EffectDeps = "int \<times> QRErrorCorrectionLevel \<times> bool \<times> string option"

definition effectDeps :: "QRView \<Rightarrow> EffectDeps" where
  "effectDeps v =
     (size_px v, errorCorrectionLevel v, withLogo (link v), qrSubtitle (link v))"

definition depsChanged :: "EffectDeps option \<Rightarrow> EffectDeps \<Rightarrow> bool" where
  "depsChanged prev cur = (case prev of None \<Rightarrow> True | Some d \<Rightarrow> d \<noteq> cur)"

text \<open>
  The effect of one render, after the render \<open>prev\<close> (\<open>None\<close> at the first):
  \<open>None\<close> when the effect does not run, the calls of \<open>generateQRCode\<close> when it does.
\<close>

definition useEffect :: "Browser \<Rightarrow> QRView option \<Rightarrow> QRView \<Rightarrow> Call list option" where
  "useEffect b prev cur =
     (if depsChanged (map_option effectDeps prev) (effectDeps cur)
      then Some (generateQRCode b cur)
      else None)"

text \<open>
  \<open>handleCopy\<close>. The \<open>try\<close> block only calls \<open>canvas.toBlob(callback)\<close>, which
  returns at once; the callback is an \<open>async\<close> function that runs later, so what it
  throws rejects a promise nobody awaits and never reaches the \<open>catch\<close> block. The
  \<open>catch\<close> block runs when \<open>toBlob\<close> itself throws.
\<close>

definition handleCopy :: "Browser \<Rightarrow> QRView \<Rightarrow> Call list" where
  "handleCopy b v =
     (if \<not> canvas b then []
      else case toBlob b of
        ToBlobThrows \<Rightarrow>
          ConsoleError # ClipboardWriteText (fullUrl v) #
            (if clipboard_writeText_ok b
             then [ToastSuccess ''qr.copyUrl.success'']
             else [ToastError ''qr.copy.error''])
      | ToBlobCalls blob \<Rightarrow>
          (if blob
           then ClipboardWrite #
             (if clipboard_write_ok b
              then [ToastSuccess ''qr.copy.success'']
              else [UnhandledRejection])
           else [UnhandledRejection]))"

section \<open>The form schemas (cln/app/components/AppHeader.tsx)\<close>

text \<open>
  A zod schema parses a raw value. The issues of the object schemas are modelled by
  kind and path; parsing succeeds when the object has no issue and the refinement
  holds.

  Three things come from the platform and the libraries and are parameters: the strings
  the URL parser accepts (\<open>.url()\<close> asks \<open>new URL(s)\<close> without a base, which only
  absolute URLs pass), the timestamp dayjs reads from a date string (\<open>None\<close> when
  it reads an invalid date), and the current time.
\<close>

record Platform =
  urls :: "string set"
  parseDate :: "string \<Rightarrow> int option"
  now :: int

datatype ZodIssue =
    InvalidType string
  | TooSmall string string
  | InvalidUrl string string

definition z_string_optional :: "string \<Rightarrow> jsval \<Rightarrow> ZodIssue list" where
  "z_string_optional path v =
     (case v of JUndefined \<Rightarrow> [] | JStr s \<Rightarrow> [] | _ \<Rightarrow> [InvalidType path])"

definition z_boolean :: "string \<Rightarrow> jsval \<Rightarrow> ZodIssue list" where
  "z_boolean path v = (case v of JBool b \<Rightarrow> [] | _ \<Rightarrow> [InvalidType path])"

definition z_boolean_optional :: "string \<Rightarrow> jsval \<Rightarrow> ZodIssue list" where
  "z_boolean_optional path v =
     (case v of JUndefined \<Rightarrow> [] | JBool b \<Rightarrow> [] | _ \<Rightarrow> [InvalidType path])"

text \<open>\<open>z.string().min(1, 'URL is required').url('Please enter a valid URL')\<close>\<close>

definition z_originalUrl :: "Platform \<Rightarrow> string \<Rightarrow> jsval \<Rightarrow> ZodIssue list" where
  "z_originalUrl p path v =
     (case v of
        JStr s \<Rightarrow>
          (if length s < 1 then [TooSmall path ''URL is required''] else []) @
          (if s \<in> urls p then [] else [InvalidUrl path ''Please enter a valid URL''])
      | _ \<Rightarrow> [InvalidType path])"

text \<open>
  \<open>dayjs(v)\<close>, as the timestamp of the date it makes (\<open>None\<close> for an invalid
  date): a Dayjs object is copied, \<open>null\<close> is an invalid date, \<open>undefined\<close> is the
  current time, a string is parsed, and any other value goes to \<open>new Date(v)\<close>, which
  takes a number as milliseconds (valid up to 8.64e15 either way) and a boolean as the
  number 0 or 1.
\<close>

definition dayjs :: "Platform \<Rightarrow> jsval \<Rightarrow> int option" where
  "dayjs p v =
     (case v of
        JDayjs d \<Rightarrow> d
      | JNull \<Rightarrow> None
      | JUndefined \<Rightarrow> Some (now p)
      | JStr s \<Rightarrow> parseDate p s
      | JNum n \<Rightarrow> (if \<bar>n\<bar> \<le> 8640000000000000 then Some n else None)
      | JBool b \<Rightarrow> Some (if b then 1 else 0))"

text \<open>
  \<open>a.isBefore(b)\<close> compares the two timestamps and is false when either date is
  invalid.
\<close>

definition isBefore :: "int option \<Rightarrow> int option \<Rightarrow> bool" where
  "isBefore a b =
     (case a of None \<Rightarrow> False
      | Some x \<Rightarrow> (case b of None \<Rightarrow> False | Some y \<Rightarrow> x < y))"

text \<open>The refinement of both schemas (\<open>z.any().optional()\<close> lets every date value pass).\<close>

definition datesOrdered :: "Platform \<Rightarrow> jsobject \<Rightarrow> bool" where
  "datesOrdered p d =
     (if truthy (getProp d ''startDateTime'') \<and> truthy (getProp d ''endDateTime'')
      then isBefore (dayjs p (getProp d ''startDateTime'')) (dayjs p (getProp d ''endDateTime''))
      else True)"

definition linkObject :: "Platform \<Rightarrow> jsobject \<Rightarrow> ZodIssue list" where
  "linkObject p d =
     z_originalUrl p ''originalUrl'' (getProp d ''originalUrl'') @
     z_string_optional ''description'' (getProp d ''description'') @
     z_boolean_optional ''withLogo'' (getProp d ''withLogo'') @
     z_string_optional ''qrSubtitle'' (getProp d ''qrSubtitle'')"

definition linkSchema :: "Platform \<Rightarrow> jsobject \<Rightarrow> bool" where
  "linkSchema p d = (linkObject p d = [] \<and> datesOrdered p d)"

definition editLinkObject :: "Platform \<Rightarrow> jsobject \<Rightarrow> ZodIssue list" where
  "editLinkObject p d =
     z_originalUrl p ''originalUrl'' (getProp d ''originalUrl'') @
     z_string_optional ''description'' (getProp d ''description'') @
     z_boolean ''enabled'' (getProp d ''enabled'') @
     z_boolean ''withLogo'' (getProp d ''withLogo'') @
     z_string_optional ''qrSubtitle'' (getProp d ''qrSubtitle'')"

definition editLinkSchema :: "Platform \<Rightarrow> jsobject \<Rightarrow> bool" where
  "editLinkSchema p d = (editLinkObject p d = [] \<and> datesOrdered p d)"

text \<open>
  The values the schemas are given are those of the two forms, \<open>LinkFormData\<close> and
  \<open>EditLinkFormData\<close>: \<open>description\<close> and \<open>qrSubtitle\<close> are strings (or left
  out), \<open>withLogo\<close> is a boolean (the creation form may leave it out), \<open>enabled\<close>
  is a boolean of the edit form. A date field is empty (\<open>null\<close>, the default of both
  forms, or left out) or holds a date, which is a truthy value: the Dayjs object of a
  date picker, or a non-empty date string or a non-zero timestamp.
\<close>

definition isString :: "jsval \<Rightarrow> bool" where
  "isString v = (case v of JStr s \<Rightarrow> True | _ \<Rightarrow> False)"

definition isBoolean :: "jsval \<Rightarrow> bool" where
  "isBoolean v = (case v of JBool b \<Rightarrow> True | _ \<Rightarrow> False)"

definition dateField :: "jsval \<Rightarrow> bool" where
  "dateField v = (v = JUndefined \<or> v = JNull \<or> truthy v)"

definition isLinkFormData :: "jsobject \<Rightarrow> bool" where
  "isLinkFormData d =
     ((getProp d ''description'' = JUndefined \<or> isString (getProp d ''description'')) \<and>
      (getProp d ''withLogo'' = JUndefined \<or> isBoolean (getProp d ''withLogo'')) \<and>
      (getProp d ''qrSubtitle'' = JUndefined \<or> isString (getProp d ''qrSubtitle'')) \<and>
      dateField (getProp d ''startDateTime'') \<and> dateField (getProp d ''endDateTime''))"

definition isEditLinkFormData :: "jsobject \<Rightarrow> bool" where
  "isEditLinkFormData d =
     ((getProp d ''description'' = JUndefined \<or> isString (getProp d ''description'')) \<and>
      isBoolean (getProp d ''enabled'') \<and>
      isBoolean (getProp d ''withLogo'') \<and>
      (getProp d ''qrSubtitle'' = JUndefined \<or> isString (getProp d ''qrSubtitle'')) \<and>
      dateField (getProp d ''startDateTime'') \<and> dateField (getProp d ''endDateTime''))"

text \<open>
  The condition of the specification, in its words: \<open>originalUrl\<close> is a non-empty
  string that parses as an absolute URL, and when both dates are present the start is
  strictly before the end.
\<close>

definition present :: "jsval \<Rightarrow> bool" where
  "present v = (v \<noteq> JUndefined \<and> v \<noteq> JNull)"

definition spec_url_and_dates :: "Platform \<Rightarrow> jsobject \<Rightarrow> bool" where
  "spec_url_and_dates p d =
     ((case getProp d ''originalUrl'' of JStr s \<Rightarrow> s \<noteq> [] \<and> s \<in> urls p | _ \<Rightarrow> False) \<and>
      (if present (getProp d ''startDateTime'') \<and> present (getProp d ''endDateTime'')
       then (case dayjs p (getProp d ''startDateTime'') of
               None \<Rightarrow> False
             | Some a \<Rightarrow>
                 (case dayjs p (getProp d ''endDateTime'') of
                    None \<Rightarrow> False
                  | Some b \<Rightarrow> a < b))
       else True))"

section \<open>The frame of a failed operation\<close>

text \<open>
  \<open>failed_with s e fallback s'\<close>: from \<open>s\<close> to \<open>s'\<close> the fields \<open>links\<close>,
  \<open>currentLink\<close>, \<open>totalCount\<close> and \<open>pagination\<close> are the same, and the error
  field of \<open>s'\<close> is the message the server sent with \<open>e\<close> when there is one and it
  is not empty, and \<open>fallback\<close> otherwise.
\<close>

definition failed_with :: "LinkState \<Rightarrow> ApiError \<Rightarrow> string \<Rightarrow> LinkState \<Rightarrow> bool" where
  "failed_with s e fb s' =
     (links s' = links s \<and> currentLink s' = currentLink s \<and>
      totalCount s' = totalCount s \<and> pagination s' = pagination s \<and>
      error s' = Some (case serverMessage e of
                         None \<Rightarrow> fb
                       | Some m \<Rightarrow> if m = [] then fb else m))"

section \<open>Test data\<close>

text \<open>Values in the style of the end-to-end tests' data, for the concrete instances.\<close>

definition testUser :: User where
  "testUser =
     \<lparr> user_id = 1, username = ''testuser'', displayName = ''Test User'',
       email = None, isAdmin = False \<rparr>"

definition testLink :: "int \<Rightarrow> string \<Rightarrow> LinkEntry" where
  "testLink i code =
     \<lparr> link_id = i, shortCode = code, originalUrl = ''https://example.com/test-page'',
       description = Some ''Test link for E2E testing'', enabled = True, pageTitle = None,
       securityLevel = safe, startDateTime = None, endDateTime = None, withLogo = False,
       qrSubtitle = None, accessCount = 0, createdAt = ''2024-12-31T00:00:00'',
       updatedAt = ''2024-12-31T00:00:00'', securityLevelUpdatedAt = None,
       createdBy = testUser, createdById = 1 \<rparr>"

definition networkError :: ApiError where
  "networkError = \<lparr> response = None \<rparr>"

definition serverError :: "string \<Rightarrow> ApiError" where
  "serverError m = \<lparr> response = Some \<lparr> data = Some \<lparr> err_message = Some m \<rparr> \<rparr> \<rparr>"

definition testBrowser :: Browser where
  "testBrowser =
     \<lparr> canvas = True, toCanvas_ok = True, context2d = True, logo_loads = True,
       toBlob = ToBlobCalls True, clipboard_write_ok = True, clipboard_writeText_ok = True \<rparr>"

text \<open>The QR dialog of a link, as the dashboard opens it.\<close>

definition testView :: "int \<Rightarrow> string \<Rightarrow> QRView" where
  "testView i code =
     \<lparr> link = testLink i code, fullUrl = ''https://go.example/s/'' @ code, size_px = 256,
       errorCorrectionLevel = LevelM \<rparr>"

text \<open>
  A platform for the instances: it parses the URLs and the two date strings of the
  tests' data.
\<close>

definition testPlatform :: Platform where
  "testPlatform =
     \<lparr> urls = {''https://example.com/test-page'', ''https://example.com/scheduled''},
       parseDate = [''2024-12-31T00:00:00'' \<mapsto> 1735603200000,
                    ''2025-12-31T23:59:59'' \<mapsto> 1767225599000],
       now = 1767225600000 \<rparr>"

text \<open>
  The values of a form: a scheduled link as the edit dialog holds it, the same with the
  two dates exchanged, the same with the dates as the strings of the tests' data, and
  the creation form with an address that is no URL.
\<close>

definition scheduledForm :: "jsval \<Rightarrow> jsval \<Rightarrow> jsobject" where
  "scheduledForm start finish =
     [''originalUrl'' \<mapsto> JStr ''https://example.com/scheduled'',
      ''description'' \<mapsto> JStr ''Scheduled test link'',
      ''enabled'' \<mapsto> JBool True,
      ''startDateTime'' \<mapsto> start,
      ''endDateTime'' \<mapsto> finish,
      ''withLogo'' \<mapsto> JBool False,
      ''qrSubtitle'' \<mapsto> JStr []]"

definition notUrlForm :: jsobject where
  "notUrlForm =
     [''originalUrl'' \<mapsto> JStr ''not-a-url'',
      ''description'' \<mapsto> JStr [],
      ''startDateTime'' \<mapsto> JNull,
      ''endDateTime'' \<mapsto> JNull,
      ''withLogo'' \<mapsto> JBool False,
      ''qrSubtitle'' \<mapsto> JStr []]"

section \<open>The link store: what a failed call leaves behind\<close>

lemma rejected_failed_with:
  "failed_with s e fb (rejected fb e (begin_op s))"
  by (simp add: failed_with_def rejected_def begin_op_def errorMessage_def)

text \<open>
  C1 (as amended). For each of the twelve operations of the link store, when the HTTP
  call fails the fields \<open>links\<close>, \<open>currentLink\<close>, \<open>totalCount\<close> and
  \<open>pagination\<close> are as they were before the call, and the error field is the message
  the server sent when there is one and it is not the empty string, and the fallback
  string of the operation otherwise. The same holds of each of the two \<open>set\<close> calls
  of a failing operation alone (the one it starts with and the one of its \<open>catch\<close>
  block), whatever other operations did in between.
\<close>

theorem failed_operations_only_set_the_error:
  "failed_with s e ''Failed to create link'' (snd (createLink dto (Inl e) s))
   \<and> failed_with s e ''Failed to fetch links'' (snd (getUserLinks params (Inl e) s))
   \<and> failed_with s e ''Failed to fetch link'' (snd (getLinkById i (Inl e) s))
   \<and> failed_with s e ''Failed to update link'' (snd (updateLink i dto' (Inl e) s))
   \<and> failed_with s e ''Failed to delete link'' (snd (deleteLink i (Inl e) s))
   \<and> failed_with s e ''Failed to transfer ownership'' (snd (transferOwnership i owner (Inl e) s))
   \<and> failed_with s e ''Failed to fetch stats'' (snd (getLinkStats i (Inl e) s))
   \<and> failed_with s e ''Link not found'' (snd (accessLink code (Inl e) s))
   \<and> failed_with s e ''Link not found'' (snd (getRedirectUrl code (Inl e) s))
   \<and> failed_with s e ''Failed to search links'' (snd (searchAllLinks params (Inl e) s))
   \<and> failed_with s e ''Failed to disable link'' (snd (disableLinkByShortCode code (Inl e) s))
   \<and> failed_with s e ''Failed to view link'' (snd (viewLinkByShortCode code (Inl e) s))
   \<and> failed_with s e (fallback opn) (step s (Rejected opn e))
   \<and> links (step s (Started opn)) = links s
   \<and> currentLink (step s (Started opn)) = currentLink s
   \<and> totalCount (step s (Started opn)) = totalCount s
   \<and> pagination (step s (Started opn)) = pagination s"
proof -
  have catch_block: "failed_with s e (fallback opn) (step s (Rejected opn e))"
    by (simp add: failed_with_def rejected_def errorMessage_def)
  have first_set: "links (step s (Started opn)) = links s"
    "currentLink (step s (Started opn)) = currentLink s"
    "totalCount (step s (Started opn)) = totalCount s"
    "pagination (step s (Started opn)) = pagination s"
    by (simp_all add: begin_op_def)
  from catch_block first_set show ?thesis
    by (simp add: rejected_failed_with createLink_def getUserLinks_def getLinkById_def
        updateLink_def deleteLink_def transferOwnership_def getLinkStats_def accessLink_def
        getRedirectUrl_def searchAllLinks_def disableLinkByShortCode_def
        viewLinkByShortCode_def Let_def)
qed

text \<open>
  Two instances: a message of the server is shown, and a call that got no response
  shows the fallback and leaves the list alone.
\<close>

theorem failed_operations_witness:
  "error (snd (updateLink 1 Map.empty (Inl (serverError ''Link is locked'')) initialState))
     = Some ''Link is locked''
   \<and> error (snd (deleteLink 1 (Inl networkError) initialState)) = Some ''Failed to delete link''
   \<and> links (snd (deleteLink 1 (Inl networkError) initialState)) = []"
  using failed_operations_only_set_the_error [of initialState "serverError ''Link is locked''" Map.empty None 1 Map.empty 0 "[]"]
    failed_operations_only_set_the_error [of initialState networkError Map.empty None 1 Map.empty 0 "[]"]
  by (simp add: failed_with_def serverMessage_def serverError_def networkError_def initialState_def)

text \<open>
  The claim as first stated, with the message shown whenever the server sent one, fails
  for the empty message, which is falsy: the fallback is shown in its place.
\<close>

theorem empty_server_message_gives_fallback:
  "serverMessage (serverError '''') = Some ''''
   \<and> error (snd (createLink Map.empty (Inl (serverError '''')) initialState))
       = Some ''Failed to create link''"
  by (simp add: serverMessage_def serverError_def createLink_def rejected_def begin_op_def
      errorMessage_def initialState_def)

section \<open>The link store: what a successful call patches\<close>

lemma createLink_resolved:
  "snd (createLink dto (Inr newLink) s) = createLink_ok newLink (begin_op s)"
  by (simp add: createLink_def)

lemma updateLink_resolved:
  "snd (updateLink i dto (Inr u) s) = updateLink_ok i u (begin_op s)"
  by (simp add: updateLink_def)

lemma deleteLink_resolved:
  "snd (deleteLink i (Inr x) s) = deleteLink_ok i (begin_op s)"
  by (simp add: deleteLink_def)

lemma begin_op_fields:
  "links (begin_op s) = links s" "currentLink (begin_op s) = currentLink s"
  "totalCount (begin_op s) = totalCount s" "pagination (begin_op s) = pagination s"
  "isLoading (begin_op s)" "error (begin_op s) = None"
  by (simp_all add: begin_op_def)

lemma currentLink_has_id_begin_op:
  "currentLink_has_id (begin_op s) i = currentLink_has_id s i"
  by (simp add: currentLink_has_id_def begin_op_def)

text \<open>
  C2. On success \<open>createLink\<close> puts the returned record in front of \<open>links\<close>;
  \<open>updateLink\<close> keeps the length of \<open>links\<close> and puts the returned record at every
  position whose entry has the given id, every other position keeping its entry, and
  does the same for \<open>currentLink\<close> when its id matches; \<open>deleteLink\<close> keeps, in
  their order, exactly the entries whose id is not the given one.
\<close>

theorem successful_operations_patch_the_list:
  "links (snd (createLink dto (Inr newLink) s)) = newLink # links s
   \<and> length (links (snd (updateLink i dto' (Inr u) s))) = length (links s)
   \<and> (\<forall>n < length (links s).
        links (snd (updateLink i dto' (Inr u) s)) ! n
          = (if link_id (links s ! n) = i then u else links s ! n))
   \<and> currentLink (snd (updateLink i dto' (Inr u) s))
        = (case currentLink s of
             None \<Rightarrow> None
           | Some c \<Rightarrow> if link_id c = i then Some u else Some c)
   \<and> links (snd (deleteLink i (Inr ()) s)) = filter (\<lambda>l. link_id l \<noteq> i) (links s)"
proof -
  have c: "links (snd (createLink dto (Inr newLink) s)) = newLink # links s"
    by (simp add: createLink_resolved createLink_ok_def begin_op_fields)
  have u: "links (snd (updateLink i dto' (Inr u) s))
             = map (\<lambda>l. if link_id l = i then u else l) (links s)"
    by (simp add: updateLink_resolved updateLink_ok_def begin_op_fields)
  have cur: "currentLink (snd (updateLink i dto' (Inr u) s))
        = (case currentLink s of
             None \<Rightarrow> None
           | Some c \<Rightarrow> if link_id c = i then Some u else Some c)"
    by (simp add: updateLink_resolved updateLink_ok_def begin_op_fields
        currentLink_has_id_begin_op currentLink_has_id_def split: option.splits)
  have d: "links (snd (deleteLink i (Inr ()) s)) = filter (\<lambda>l. link_id l \<noteq> i) (links s)"
    by (simp add: deleteLink_resolved deleteLink_ok_def begin_op_fields)
  from c u cur d show ?thesis by simp
qed

text \<open>
  An instance: in a list of two links, updating the first replaces it and keeps the
  second, and deleting the first leaves the second.
\<close>

theorem successful_operations_witness:
  "links (snd (updateLink 1 Map.empty (Inr (testLink 1 ''new''))
        (initialState\<lparr> links := [testLink 1 ''a'', testLink 2 ''b''] \<rparr>))) ! 0 = testLink 1 ''new''
   \<and> links (snd (updateLink 1 Map.empty (Inr (testLink 1 ''new''))
        (initialState\<lparr> links := [testLink 1 ''a'', testLink 2 ''b''] \<rparr>))) ! 1 = testLink 2 ''b''
   \<and> links (snd (deleteLink 1 (Inr ())
        (initialState\<lparr> links := [testLink 1 ''a'', testLink 2 ''b''] \<rparr>))) = [testLink 2 ''b'']"
  using successful_operations_patch_the_list
    [of Map.empty "testLink 1 ''new''" "initialState\<lparr> links := [testLink 1 ''a'', testLink 2 ''b''] \<rparr>"
        1 Map.empty "testLink 1 ''new''"]
  by (simp add: testLink_def)

section \<open>The link store: what is persisted\<close>

text \<open>
  C5 (as amended). The snapshot written to the storage holds the whole \<open>pagination\<close>
  object of the store (page size, offset, sort key and order) and none of \<open>links\<close>,
  \<open>currentLink\<close>, \<open>isLoading\<close>, \<open>error\<close> and \<open>totalCount\<close>.
\<close>

theorem snapshot_holds_the_pagination_only:
  "snap_links (partialize s) = None
   \<and> snap_currentLink (partialize s) = None
   \<and> snap_isLoading (partialize s) = None
   \<and> snap_error (partialize s) = None
   \<and> snap_totalCount (partialize s) = None
   \<and> snap_pagination (partialize s) = Some (pagination s)"
  by (simp add: partialize_def)

text \<open>
  The claim as first stated, with the page size the only thing persisted, fails already
  for the initial state: its snapshot holds the offset, the sort key and the order.
\<close>

theorem snapshot_holds_offset_sort_and_order:
  "(case snap_pagination (partialize initialState) of None \<Rightarrow> None | Some p \<Rightarrow> p ''offset'')
     = Some (JNum 0)
   \<and> (case snap_pagination (partialize initialState) of None \<Rightarrow> None | Some p \<Rightarrow> p ''sort'')
     = Some (JStr ''createdAt'')
   \<and> (case snap_pagination (partialize initialState) of None \<Rightarrow> None | Some p \<Rightarrow> p ''order'')
     = Some (JStr ''DESC'')"
  by (simp add: partialize_def initialState_def initialPagination_def)

section \<open>The link store: the loading flag and the error shown\<close>

lemma operations_are_events:
  "snd (createLink dto (Inr l) s) = run [Started CreateLink, Resolved (CreateLinkOk l)] s"
  "snd (createLink dto (Inl e) s) = run [Started CreateLink, Rejected CreateLink e] s"
  "snd (getUserLinks None (Inr ls) s)
     = run [Started GetUserLinks, Resolved (GetUserLinksOk (pagination s) ls)] s"
  "snd (getUserLinks (Some p) (Inr ls) s)
     = run [Started GetUserLinks, Resolved (GetUserLinksOk p ls)] s"
  "snd (getUserLinks params (Inl e) s) = run [Started GetUserLinks, Rejected GetUserLinks e] s"
  "snd (getLinkById i (Inr l) s) = run [Started GetLinkById, Resolved (GetLinkByIdOk l)] s"
  "snd (getLinkById i (Inl e) s) = run [Started GetLinkById, Rejected GetLinkById e] s"
  "snd (updateLink i dto' (Inr l) s) = run [Started UpdateLink, Resolved (UpdateLinkOk i l)] s"
  "snd (updateLink i dto' (Inl e) s) = run [Started UpdateLink, Rejected UpdateLink e] s"
  "snd (deleteLink i (Inr u) s) = run [Started DeleteLink, Resolved (DeleteLinkOk i)] s"
  "snd (deleteLink i (Inl e) s) = run [Started DeleteLink, Rejected DeleteLink e] s"
  "snd (transferOwnership i owner (Inr l) s)
     = run [Started TransferOwnership, Resolved (TransferOwnershipOk i l)] s"
  "snd (transferOwnership i owner (Inl e) s)
     = run [Started TransferOwnership, Rejected TransferOwnership e] s"
  "snd (getLinkStats i (Inr st) s) = run [Started GetLinkStats, Resolved (ReadOk GetLinkStats)] s"
  "snd (getLinkStats i (Inl e) s) = run [Started GetLinkStats, Rejected GetLinkStats e] s"
  "snd (accessLink code (Inr a) s) = run [Started AccessLink, Resolved (ReadOk AccessLink)] s"
  "snd (accessLink code (Inl e) s) = run [Started AccessLink, Rejected AccessLink e] s"
  "snd (getRedirectUrl code (Inr r) s)
     = run [Started GetRedirectUrl, Resolved (ReadOk GetRedirectUrl)] s"
  "snd (getRedirectUrl code (Inl e) s) = run [Started GetRedirectUrl, Rejected GetRedirectUrl e] s"
  "snd (searchAllLinks params (Inr ls) s)
     = run [Started SearchAllLinks, Resolved (ReadOk SearchAllLinks)] s"
  "snd (searchAllLinks params (Inl e) s) = run [Started SearchAllLinks, Rejected SearchAllLinks e] s"
  "snd (disableLinkByShortCode code (Inr l) s)
     = run [Started DisableLinkByShortCode, Resolved (DisableLinkByShortCodeOk code l)] s"
  "snd (disableLinkByShortCode code (Inl e) s)
     = run [Started DisableLinkByShortCode, Rejected DisableLinkByShortCode e] s"
  "snd (viewLinkByShortCode code (Inr l) s)
     = run [Started ViewLinkByShortCode, Resolved (ReadOk ViewLinkByShortCode)] s"
  "snd (viewLinkByShortCode code (Inl e) s)
     = run [Started ViewLinkByShortCode, Rejected ViewLinkByShortCode e] s"
  by (simp_all add: run_def createLink_def getUserLinks_def getLinkById_def
      updateLink_def deleteLink_def transferOwnership_def getLinkStats_def accessLink_def
      getRedirectUrl_def searchAllLinks_def disableLinkByShortCode_def
      viewLinkByShortCode_def Let_def begin_op_def)

lemma resolved_not_loading: "\<not> isLoading (resolved r s)"
  by (cases r)
    (simp_all add: createLink_ok_def getUserLinks_ok_def getLinkById_ok_def updateLink_ok_def
      deleteLink_ok_def disableLinkByShortCode_ok_def loaded_def)

lemma resolved_error: "error (resolved r s) = error s"
  by (cases r)
    (simp_all add: createLink_ok_def getUserLinks_ok_def getLinkById_ok_def updateLink_ok_def
      deleteLink_ok_def disableLinkByShortCode_ok_def loaded_def)

lemma rejected_not_loading: "\<not> isLoading (rejected fb e s)"
  by (simp add: rejected_def)

lemma step_error:
  "error s = map_option describes shown \<Longrightarrow>
   error (step s ev) = map_option describes (noteRejection shown ev)"
  by (cases ev)
    (simp_all add: resolved_error begin_op_def rejected_def describes_def setCurrentLink_def
      setPagination_def clearError_def reset_def)

lemma foldl_step_error:
  "error s = map_option describes shown \<Longrightarrow>
   error (foldl step s evs) = map_option describes (foldl noteRejection shown evs)"
proof (induction evs arbitrary: s shown)
  case Nil
  then show ?case by simp
next
  case (Cons ev evs)
  from Cons.prems have "error (step s ev) = map_option describes (noteRejection shown ev)"
    by (rule step_error)
  then show ?case
    using Cons.IH by simp
qed

lemma settled_not_loading:
  "\<not> isLoading (snd (createLink dto h1 s))"
  "\<not> isLoading (snd (getUserLinks params h2 s))"
  "\<not> isLoading (snd (getLinkById i h3 s))"
  "\<not> isLoading (snd (updateLink i dto' h4 s))"
  "\<not> isLoading (snd (deleteLink i h5 s))"
  "\<not> isLoading (snd (transferOwnership i owner h6 s))"
  "\<not> isLoading (snd (getLinkStats i h7 s))"
  "\<not> isLoading (snd (accessLink code h8 s))"
  "\<not> isLoading (snd (getRedirectUrl code h9 s))"
  "\<not> isLoading (snd (searchAllLinks params h10 s))"
  "\<not> isLoading (snd (disableLinkByShortCode code h11 s))"
  "\<not> isLoading (snd (viewLinkByShortCode code h12 s))"
  by (simp_all add: createLink_def getUserLinks_def getLinkById_def
      updateLink_def deleteLink_def transferOwnership_def getLinkStats_def accessLink_def
      getRedirectUrl_def searchAllLinks_def disableLinkByShortCode_def
      viewLinkByShortCode_def Let_def rejected_def createLink_ok_def getUserLinks_ok_def
      getLinkById_ok_def updateLink_ok_def deleteLink_ok_def disableLinkByShortCode_ok_def
      loaded_def split: sum.splits)

text \<open>
  C9 (as amended). Every operation starts by setting \<open>isLoading\<close> and clearing
  \<open>error\<close>, and whichever way it settles \<open>isLoading\<close> is false afterwards. After
  any sequence of events from the initial state, the error field is the message of the
  operation that was rejected last, as long as no operation has started and the error
  has not been cleared since; otherwise it is \<open>null\<close>.
\<close>

theorem loading_flag_and_shown_error:
  "isLoading (step s (Started opn)) \<and> error (step s (Started opn)) = None
   \<and> \<not> isLoading (step s (Resolved r))
   \<and> \<not> isLoading (step s (Rejected opn e))
   \<and> list_all (\<lambda>s'. \<not> isLoading s')
        [snd (createLink dto h1 s), snd (getUserLinks params h2 s), snd (getLinkById i h3 s),
         snd (updateLink i dto' h4 s), snd (deleteLink i h5 s),
         snd (transferOwnership i owner h6 s), snd (getLinkStats i h7 s),
         snd (accessLink code h8 s), snd (getRedirectUrl code h9 s),
         snd (searchAllLinks params h10 s), snd (disableLinkByShortCode code h11 s),
         snd (viewLinkByShortCode code h12 s)]
   \<and> error (run evs initialState) = map_option describes (shownRejection evs)"
proof -
  have a: "isLoading (step s (Started opn)) \<and> error (step s (Started opn)) = None"
    by (simp add: begin_op_def)
  have b: "\<not> isLoading (step s (Resolved r))" "\<not> isLoading (step s (Rejected opn e))"
    by (simp_all add: resolved_not_loading rejected_not_loading)
  have c: "error (run evs initialState) = map_option describes (shownRejection evs)"
    unfolding run_def shownRejection_def
    by (rule foldl_step_error) (simp add: initialState_def)
  from a b c show ?thesis
    by (simp add: settled_not_loading)
qed

text \<open>
  The claim as first stated, with a non-null error always describing the operation
  started last, fails when two operations overlap: \<open>createLink\<close> starts, then
  \<open>getUserLinks\<close> starts, then \<open>createLink\<close> is rejected. The error shown is the
  one of \<open>createLink\<close>, and the operation started last is \<open>getUserLinks\<close>.
\<close>

theorem error_of_an_earlier_operation:
  "error (run [Started CreateLink, Started GetUserLinks, Rejected CreateLink networkError]
            initialState) = Some ''Failed to create link''
   \<and> shownRejection [Started CreateLink, Started GetUserLinks, Rejected CreateLink networkError]
       = Some (CreateLink, networkError)
   \<and> lastStarted [Started CreateLink, Started GetUserLinks, Rejected CreateLink networkError]
       = Some GetUserLinks"
  by (simp add: run_def shownRejection_def lastStarted_def rejected_def begin_op_def
      errorMessage_def serverMessage_def networkError_def initialState_def)

section \<open>The link store: pagination\<close>

text \<open>
  C10. \<open>setPagination(params)\<close> merges: the new pagination has the value of
  \<open>params\<close> at every key \<open>params\<close> has and the previous value at every other key,
  and no other field of the store changes.
\<close>

theorem setPagination_merges:
  "pagination (setPagination params s) k =
     (if k \<in> dom params then params k else pagination s k)
   \<and> links (setPagination params s) = links s
   \<and> currentLink (setPagination params s) = currentLink s
   \<and> isLoading (setPagination params s) = isLoading s
   \<and> error (setPagination params s) = error s
   \<and> totalCount (setPagination params s) = totalCount s"
  by (auto simp: setPagination_def map_add_def split: option.splits)

section \<open>The toast store: one timer\<close>

lemma clearPending_tracked:
  "timers_tracked sys \<Longrightarrow> timers (clearPending sys) = []"
  by (auto simp: timers_tracked_def clearPending_def clearTimeout_def split: option.splits)

lemma clearPending_store: "store (clearPending sys) = store sys"
  by (simp add: clearPending_def clearTimeout_def split: option.splits)

lemma clearPending_nextTimer: "nextTimer (clearPending sys) = nextTimer sys"
  by (simp add: clearPending_def clearTimeout_def split: option.splits)

lemma showToast_timers:
  "timers_tracked sys \<Longrightarrow> timers (showToast msg sev dur pos sys) = [Timeout (nextTimer sys)]"
  by (simp add: showToast_def setTimeout_def Let_def clearPending_tracked clearPending_nextTimer)

lemma showToast_store:
  "store (showToast msg sev dur pos sys) =
     \<lparr> open = True, message = msg,
       severity = (case sev of None \<Rightarrow> Info | Some v \<Rightarrow> v),
       duration = (case dur of None \<Rightarrow> 5000 | Some d \<Rightarrow> d),
       position = (case pos of None \<Rightarrow> BottomRight | Some p \<Rightarrow> p),
       timeoutId = Some (Timeout (nextTimer sys)) \<rparr>"
  by (simp add: showToast_def setTimeout_def Let_def clearPending_nextTimer)

lemma showToast_tracked:
  "timers_tracked sys \<Longrightarrow> timers_tracked (showToast msg sev dur pos sys)"
  by (simp add: timers_tracked_def [of "showToast msg sev dur pos sys"] showToast_timers showToast_store)

lemma hideToast_timers: "timers_tracked sys \<Longrightarrow> timers (hideToast sys) = []"
  by (simp add: hideToast_def Let_def clearPending_tracked)

lemma hideToast_store:
  "store (hideToast sys) = (store sys)\<lparr> open := False, timeoutId := None \<rparr>"
  by (simp add: hideToast_def Let_def clearPending_store)

lemma hideToast_tracked:
  assumes "timers_tracked sys"
  shows "timers_tracked (hideToast sys)"
proof -
  have "timers (hideToast sys) = []"
    using assms by (rule hideToast_timers)
  moreover have "timeoutId (store (hideToast sys)) = None"
    by (simp add: hideToast_store)
  ultimately show ?thesis
    by (simp add: timers_tracked_def)
qed

lemma timerFires_tracked: "timers_tracked sys \<Longrightarrow> timers_tracked (timerFires t sys)"
  by (auto simp: timers_tracked_def timerFires_def split: option.splits)

lemma toast_step_tracked: "timers_tracked sys \<Longrightarrow> timers_tracked (toast_step sys ev)"
  by (cases ev)
    (simp_all add: showToast_tracked hideToast_tracked timerFires_tracked showSuccess_def
      showError_def showWarning_def showInfo_def)

lemma foldl_toast_step_tracked:
  "timers_tracked sys \<Longrightarrow> timers_tracked (foldl toast_step sys evs)"
  by (induction evs arbitrary: sys) (simp_all add: toast_step_tracked)

lemma toast_run_tracked: "timers_tracked (toast_run evs)"
  unfolding toast_run_def
  by (rule foldl_toast_step_tracked) (simp add: timers_tracked_def initialToast_def)

lemma tracked_at_most_one: "timers_tracked sys \<Longrightarrow> length (timers sys) \<le> 1"
  by (simp add: timers_tracked_def split: option.splits)

text \<open>
  C7. After any sequence of calls and timer firings at most one timer is pending.
  \<open>showToast\<close> clears the pending timer before it sets the new one, so afterwards the
  new timer is the only pending one and the one the store remembers, and the state is
  open with the message, severity, duration and position of the call (the defaults
  where an argument is left out), whatever was shown before.
\<close>

theorem showToast_single_timer:
  "length (timers (toast_run evs)) \<le> 1
   \<and> timers (showToast msg sev dur pos (toast_run evs)) = [Timeout (nextTimer (toast_run evs))]
   \<and> timeoutId (store (showToast msg sev dur pos (toast_run evs)))
        = Some (Timeout (nextTimer (toast_run evs)))
   \<and> open (store (showToast msg sev dur pos (toast_run evs))) = True
   \<and> message (store (showToast msg sev dur pos (toast_run evs))) = msg
   \<and> severity (store (showToast msg sev dur pos (toast_run evs)))
        = (case sev of None \<Rightarrow> Info | Some v \<Rightarrow> v)
   \<and> duration (store (showToast msg sev dur pos (toast_run evs)))
        = (case dur of None \<Rightarrow> 5000 | Some d \<Rightarrow> d)
   \<and> position (store (showToast msg sev dur pos (toast_run evs)))
        = (case pos of None \<Rightarrow> BottomRight | Some p \<Rightarrow> p)"
proof -
  have one: "length (timers (toast_run evs)) \<le> 1"
    using toast_run_tracked by (rule tracked_at_most_one)
  have new: "timers (showToast msg sev dur pos (toast_run evs))
               = [Timeout (nextTimer (toast_run evs))]"
    using toast_run_tracked by (rule showToast_timers)
  from one new show ?thesis
    by (simp only: showToast_store) simp
qed

text \<open>
  C8. In every state \<open>hideToast\<close> sets \<open>open\<close> to false and \<open>timeoutId\<close> to
  \<open>null\<close>, leaves message, severity, duration and position as they are, and clears
  the timer the store remembers; after any sequence of calls and timer firings no timer
  is pending once it has run.
\<close>

theorem hideToast_keeps_the_message:
  "open (store (hideToast sys)) = False
   \<and> timeoutId (store (hideToast sys)) = None
   \<and> message (store (hideToast sys)) = message (store sys)
   \<and> severity (store (hideToast sys)) = severity (store sys)
   \<and> duration (store (hideToast sys)) = duration (store sys)
   \<and> position (store (hideToast sys)) = position (store sys)
   \<and> (case timeoutId (store sys) of
         None \<Rightarrow> timers (hideToast sys) = timers sys
       | Some t \<Rightarrow> t \<notin> set (timers (hideToast sys)))
   \<and> timers (hideToast (toast_run evs)) = []"
proof -
  have pending: "(case timeoutId (store sys) of
         None \<Rightarrow> timers (hideToast sys) = timers sys
       | Some t \<Rightarrow> t \<notin> set (timers (hideToast sys)))"
    by (simp add: hideToast_def Let_def clearPending_def clearTimeout_def split: option.splits)
  have none: "timers (hideToast (toast_run evs)) = []"
    using toast_run_tracked by (rule hideToast_timers)
  from pending none show ?thesis
    by (simp add: hideToast_store)
qed

section \<open>The QR renderer\<close>

text \<open>
  When the effect runs, and what \<open>generateQRCode\<close> draws in a browser where every
  step succeeds.
\<close>

lemma useEffect_runs_iff:
  "useEffect b None cur = Some (generateQRCode b cur)
   \<and> useEffect b (Some prev) cur =
       (if size_px prev = size_px cur
           \<and> errorCorrectionLevel prev = errorCorrectionLevel cur
           \<and> withLogo (link prev) = withLogo (link cur)
           \<and> qrSubtitle (link prev) = qrSubtitle (link cur)
        then None
        else Some (generateQRCode b cur))"
  by (simp add: useEffect_def depsChanged_def effectDeps_def)

lemma generateQRCode_draws:
  "canvas b \<Longrightarrow> toCanvas_ok b \<Longrightarrow> context2d b \<Longrightarrow> logo_loads b \<Longrightarrow>
   generateQRCode b v =
     ToCanvas (fullUrl v) (size_px v) (errorCorrectionLevel v) #
       (if withLogo (link v) then [DrawLogo] else []) @ subtitle v"
  by (simp add: generateQRCode_def)


text \<open>
  C6. When the canvas gives a blob and \<open>navigator.clipboard.write\<close> rejects,
  \<open>handleCopy\<close> does not write the URL and shows no toast: the rejection is left
  unhandled.
\<close>

theorem handleCopy_rejected_write_has_no_fallback:
  "handleCopy (testBrowser\<lparr> clipboard_write_ok := False \<rparr>) (testView 1 ''test123'')
     = [ClipboardWrite, UnhandledRejection]"
  by (simp add: handleCopy_def testBrowser_def)

section \<open>The form schemas\<close>

lemma z_string_optional_ok:
  "(z_string_optional path v = []) = (v = JUndefined \<or> isString v)"
  by (cases v) (simp_all add: z_string_optional_def isString_def)

lemma z_boolean_optional_ok:
  "(z_boolean_optional path v = []) = (v = JUndefined \<or> isBoolean v)"
  by (cases v) (simp_all add: z_boolean_optional_def isBoolean_def)

lemma z_boolean_ok: "(z_boolean path v = []) = isBoolean v"
  by (cases v) (simp_all add: z_boolean_def isBoolean_def)

lemma z_originalUrl_ok:
  "(z_originalUrl p path v = []) = (case v of JStr s \<Rightarrow> s \<noteq> [] \<and> s \<in> urls p | _ \<Rightarrow> False)"
  by (cases v) (auto simp: z_originalUrl_def)

lemma dateField_truthy: "dateField v \<Longrightarrow> truthy v = present v"
  by (cases v) (auto simp: dateField_def present_def)

lemma isBefore_less:
  "isBefore a b =
     (case a of None \<Rightarrow> False | Some x \<Rightarrow> (case b of None \<Rightarrow> False | Some y \<Rightarrow> x < y))"
  by (simp add: isBefore_def)

lemma url_and_refinement:
  assumes "dateField (getProp d ''startDateTime'')" and "dateField (getProp d ''endDateTime'')"
  shows "(z_originalUrl p ''originalUrl'' (getProp d ''originalUrl'') = [] \<and> datesOrdered p d)
           = spec_url_and_dates p d"
  using assms
  by (simp add: z_originalUrl_ok datesOrdered_def spec_url_and_dates_def dateField_truthy
      isBefore_less)

lemma linkSchema_on_form:
  assumes "isLinkFormData d"
  shows "linkSchema p d = spec_url_and_dates p d"
proof -
  from assms have dates: "dateField (getProp d ''startDateTime'')"
    "dateField (getProp d ''endDateTime'')"
    by (simp_all add: isLinkFormData_def)
  from assms have rest:
    "z_string_optional ''description'' (getProp d ''description'') = []"
    "z_boolean_optional ''withLogo'' (getProp d ''withLogo'') = []"
    "z_string_optional ''qrSubtitle'' (getProp d ''qrSubtitle'') = []"
    by (simp_all add: isLinkFormData_def z_string_optional_ok z_boolean_optional_ok)
  show ?thesis
    unfolding url_and_refinement [OF dates, of p, symmetric]
    by (simp add: linkSchema_def linkObject_def rest)
qed

lemma editLinkSchema_on_form:
  assumes "isEditLinkFormData d"
  shows "editLinkSchema p d = spec_url_and_dates p d"
proof -
  from assms have dates: "dateField (getProp d ''startDateTime'')"
    "dateField (getProp d ''endDateTime'')"
    by (simp_all add: isEditLinkFormData_def)
  from assms have rest:
    "z_string_optional ''description'' (getProp d ''description'') = []"
    "z_boolean ''enabled'' (getProp d ''enabled'') = []"
    "z_boolean ''withLogo'' (getProp d ''withLogo'') = []"
    "z_string_optional ''qrSubtitle'' (getProp d ''qrSubtitle'') = []"
    by (simp_all add: isEditLinkFormData_def z_string_optional_ok z_boolean_ok)
  show ?thesis
    unfolding url_and_refinement [OF dates, of p, symmetric]
    by (simp add: editLinkSchema_def editLinkObject_def rest)
qed

text \<open>
  C3. On the values of its form, each of \<open>linkSchema\<close> and \<open>editLinkSchema\<close>
  accepts exactly when \<open>originalUrl\<close> is a non-empty string that parses as an
  absolute URL and, when both dates are present, the start is a valid date strictly
  before the end, a valid date too; \<open>description\<close>, \<open>qrSubtitle\<close> and the flags
  add no condition.
\<close>

theorem schemas_accept_exactly:
  "(isLinkFormData d \<longrightarrow> linkSchema p d = spec_url_and_dates p d)
   \<and> (isEditLinkFormData d \<longrightarrow> editLinkSchema p d = spec_url_and_dates p d)"
  by (simp add: linkSchema_on_form editLinkSchema_on_form)

lemma scheduledForm_fields:
  "getProp (scheduledForm a b) ''originalUrl'' = JStr ''https://example.com/scheduled''"
  "getProp (scheduledForm a b) ''description'' = JStr ''Scheduled test link''"
  "getProp (scheduledForm a b) ''enabled'' = JBool True"
  "getProp (scheduledForm a b) ''startDateTime'' = a"
  "getProp (scheduledForm a b) ''endDateTime'' = b"
  "getProp (scheduledForm a b) ''withLogo'' = JBool False"
  "getProp (scheduledForm a b) ''qrSubtitle'' = JStr []"
  by (simp_all add: scheduledForm_def getProp_def)

lemma notUrlForm_fields:
  "getProp notUrlForm ''originalUrl'' = JStr ''not-a-url''"
  "getProp notUrlForm ''description'' = JStr []"
  "getProp notUrlForm ''startDateTime'' = JNull"
  "getProp notUrlForm ''endDateTime'' = JNull"
  "getProp notUrlForm ''withLogo'' = JBool False"
  "getProp notUrlForm ''qrSubtitle'' = JStr []"
  by (simp_all add: notUrlForm_def getProp_def)

text \<open>
  Instances, on the values of a form: a scheduled link passes both schemas; it is
  rejected with the two dates exchanged and with the end equal to the start; it passes
  with no end, and with the dates given as strings; an address that is no URL is
  rejected.
\<close>

theorem schemas_accept_witness:
  "isLinkFormData (scheduledForm (JDayjs (Some 1735603200000)) (JDayjs (Some 1767225599000)))
   \<and> isEditLinkFormData (scheduledForm (JDayjs (Some 1735603200000)) (JDayjs (Some 1767225599000)))
   \<and> linkSchema testPlatform (scheduledForm (JDayjs (Some 1735603200000)) (JDayjs (Some 1767225599000)))
   \<and> editLinkSchema testPlatform (scheduledForm (JDayjs (Some 1735603200000)) (JDayjs (Some 1767225599000)))
   \<and> \<not> editLinkSchema testPlatform (scheduledForm (JDayjs (Some 1767225599000)) (JDayjs (Some 1735603200000)))
   \<and> \<not> editLinkSchema testPlatform (scheduledForm (JDayjs (Some 1735603200000)) (JDayjs (Some 1735603200000)))
   \<and> editLinkSchema testPlatform (scheduledForm (JDayjs (Some 1735603200000)) JNull)
   \<and> editLinkSchema testPlatform (scheduledForm (JStr ''2024-12-31T00:00:00'') (JStr ''2025-12-31T23:59:59''))
   \<and> isLinkFormData notUrlForm
   \<and> \<not> linkSchema testPlatform notUrlForm"
proof -
  have forms:
    "isLinkFormData (scheduledForm (JDayjs (Some 1735603200000)) (JDayjs (Some 1767225599000)))"
    "isEditLinkFormData (scheduledForm (JDayjs (Some 1735603200000)) (JDayjs (Some 1767225599000)))"
    "isEditLinkFormData (scheduledForm (JDayjs (Some 1767225599000)) (JDayjs (Some 1735603200000)))"
    "isEditLinkFormData (scheduledForm (JDayjs (Some 1735603200000)) (JDayjs (Some 1735603200000)))"
    "isEditLinkFormData (scheduledForm (JDayjs (Some 1735603200000)) JNull)"
    "isEditLinkFormData (scheduledForm (JStr ''2024-12-31T00:00:00'') (JStr ''2025-12-31T23:59:59''))"
    "isLinkFormData notUrlForm"
    by (simp_all add: isLinkFormData_def isEditLinkFormData_def scheduledForm_fields
        notUrlForm_fields isString_def isBoolean_def dateField_def)
  have spec:
    "spec_url_and_dates testPlatform (scheduledForm (JDayjs (Some 1735603200000)) (JDayjs (Some 1767225599000)))"
    "\<not> spec_url_and_dates testPlatform (scheduledForm (JDayjs (Some 1767225599000)) (JDayjs (Some 1735603200000)))"
    "\<not> spec_url_and_dates testPlatform (scheduledForm (JDayjs (Some 1735603200000)) (JDayjs (Some 1735603200000)))"
    "spec_url_and_dates testPlatform (scheduledForm (JDayjs (Some 1735603200000)) JNull)"
    "spec_url_and_dates testPlatform (scheduledForm (JStr ''2024-12-31T00:00:00'') (JStr ''2025-12-31T23:59:59''))"
    "\<not> spec_url_and_dates testPlatform notUrlForm"
    by (simp_all add: spec_url_and_dates_def scheduledForm_fields notUrlForm_fields
        present_def dayjs_def testPlatform_def)
  from forms spec
    schemas_accept_exactly [of "scheduledForm (JDayjs (Some 1735603200000)) (JDayjs (Some 1767225599000))" testPlatform]
    schemas_accept_exactly [of "scheduledForm (JDayjs (Some 1767225599000)) (JDayjs (Some 1735603200000))" testPlatform]
    schemas_accept_exactly [of "scheduledForm (JDayjs (Some 1735603200000)) (JDayjs (Some 1735603200000))" testPlatform]
    schemas_accept_exactly [of "scheduledForm (JDayjs (Some 1735603200000)) JNull" testPlatform]
    schemas_accept_exactly [of "scheduledForm (JStr ''2024-12-31T00:00:00'') (JStr ''2025-12-31T23:59:59'')" testPlatform]
    schemas_accept_exactly [of notUrlForm testPlatform]
  show ?thesis
    by blast
qed

end
